theory Spec2Isabelle
  imports Complex_Main "HOL-Library.AList" "HOL-Library.Product_Lexorder"
begin

section \<open>Python values and strings\<close>

text \<open>
  The pipeline handles loosely typed values: whatever \<^verbatim>\<open>json.loads\<close> returns, and the
  dictionaries built from them. They are modelled by one datatype. A dictionary keeps its
  insertion order (an association list, looked up by \<open>map_of\<close>). Numbers are Python's
  unbounded integers; floating-point numbers are not part of the model. A string is a
  list of characters with code points below 256.
\<close>

datatype pyval =
    PyNone
  | PyBool bool
  | PyInt int
  | PyStr string
  | PyList "pyval list"
  | PyDict "(string \<times> pyval) list"

type_synonym pydict = "(string \<times> pyval) list"

datatype py_error =
    JSONDecodeError
  | TypeError
  | AttributeError
  | OverflowError
  | IntegrityError
  | ProgrammingError
  | OperationalError
  | RecursionError
  | ValueError

text \<open>\<^verbatim>\<open>d.get(k)\<close> and \<^verbatim>\<open>d.get(k, default)\<close>.\<close>

definition dict_get_default :: "pydict \<Rightarrow> string \<Rightarrow> pyval \<Rightarrow> pyval" where
  "dict_get_default d k dflt = (case map_of d k of None \<Rightarrow> dflt | Some v \<Rightarrow> v)"

definition dict_get :: "pydict \<Rightarrow> string \<Rightarrow> pyval" where
  "dict_get d k = dict_get_default d k PyNone"

text \<open>\<^verbatim>\<open>k in d\<close> and \<^verbatim>\<open>d[k] = v\<close> (an existing key keeps its place, a new one goes last).\<close>

definition dict_has :: "pydict \<Rightarrow> string \<Rightarrow> bool" where
  "dict_has d k = (map_of d k \<noteq> None)"

definition dict_set :: "pydict \<Rightarrow> string \<Rightarrow> pyval \<Rightarrow> pydict" where
  "dict_set d k v = AList.update k v d"

text \<open>Truth value of a Python object, and \<^verbatim>\<open>x or y\<close>.\<close>

fun truthy :: "pyval \<Rightarrow> bool" where
  "truthy PyNone = False"
| "truthy (PyBool b) = b"
| "truthy (PyInt n) = (n \<noteq> 0)"
| "truthy (PyStr s) = (s \<noteq> [])"
| "truthy (PyList xs) = (xs \<noteq> [])"
| "truthy (PyDict kvs) = (kvs \<noteq> [])"

definition py_or :: "pyval \<Rightarrow> pyval \<Rightarrow> pyval" where
  "py_or x y = (if truthy x then x else y)"


fun is_list :: "pyval \<Rightarrow> bool" where
  "is_list (PyList xs) = True"
| "is_list v = False"

subsection \<open>\<^verbatim>\<open>str.lower\<close>, \<^verbatim>\<open>str.strip\<close>, \<^verbatim>\<open>str.startswith\<close>\<close>

definition lower_char :: "char \<Rightarrow> char" where
  "lower_char c =
     (let n = (of_char c :: nat)
      in if (65 \<le> n \<and> n \<le> 90) \<or> (192 \<le> n \<and> n \<le> 222 \<and> n \<noteq> 215)
         then char_of (n + 32) else c)"

definition lower :: "string \<Rightarrow> string" where
  "lower s = map lower_char s"




subsection \<open>\<^verbatim>\<open>str(n)\<close> for integers and \<^verbatim>\<open>json.dumps\<close>\<close>

function str_nat :: "nat \<Rightarrow> string" where
  "str_nat n =
     (if n < 10 then [''0123456789'' ! n]
      else str_nat (n div 10) @ [''0123456789'' ! (n mod 10)])"
  by pat_completeness auto
termination
  by (relation "measure id") auto

definition str_int :: "int \<Rightarrow> string" where
  "str_int i = (if i < 0 then CHR ''-'' # str_nat (nat (- i)) else str_nat (nat i))"

text \<open>
  \<^verbatim>\<open>json.dumps\<close> with its defaults (\<^verbatim>\<open>ensure_ascii=True\<close>, separators \<^verbatim>\<open>", "\<close> and
  \<^verbatim>\<open>": "\<close>): a string is quoted, the quote and the backslash are escaped, the usual
  control characters have short escapes, every other character outside the printable
  ASCII range is written \<^verbatim>\<open>\u00xx\<close>.
\<close>

definition hex_digit :: "nat \<Rightarrow> char" where
  "hex_digit d = ''0123456789abcdef'' ! d"

definition json_escape_char :: "char \<Rightarrow> string" where
  "json_escape_char c =
     (let n = (of_char c :: nat)
      in if n = 34 then [CHR 0x5C, CHR 0x22]
         else if n = 92 then [CHR 0x5C, CHR 0x5C]
         else if n = 10 then [CHR 0x5C, CHR ''n'']
         else if n = 13 then [CHR 0x5C, CHR ''r'']
         else if n = 9 then [CHR 0x5C, CHR ''t'']
         else if n = 8 then [CHR 0x5C, CHR ''b'']
         else if n = 12 then [CHR 0x5C, CHR ''f'']
         else if 32 \<le> n \<and> n \<le> 126 then [c]
         else [CHR 0x5C, CHR ''u'', CHR ''0'', CHR ''0'', hex_digit (n div 16), hex_digit (n mod 16)])"

definition json_string :: "string \<Rightarrow> string" where
  "json_string s = [CHR 0x22] @ concat (map json_escape_char s) @ [CHR 0x22]"

fun join :: "string \<Rightarrow> string list \<Rightarrow> string" where
  "join sep [] = []"
| "join sep [x] = x"
| "join sep (x # y # ys) = x @ sep @ join sep (y # ys)"

fun json_dumps :: "pyval \<Rightarrow> string" where
  "json_dumps PyNone = ''null''"
| "json_dumps (PyBool b) = (if b then ''true'' else ''false'')"
| "json_dumps (PyInt n) = str_int n"
| "json_dumps (PyStr s) = json_string s"
| "json_dumps (PyList xs) = ''['' @ join '', '' (map json_dumps xs) @ '']''"
| "json_dumps (PyDict kvs) =
     ''{'' @ join '', '' (map (\<lambda>(k, v). json_string k @ '': '' @ json_dumps v) kvs) @ ''}''"

section \<open>The store: \<^verbatim>\<open>database/db.py\<close>\<close>

text \<open>
  The values a column holds. A Python value is bound to a statement parameter first
  (\<^verbatim>\<open>None\<close> is NULL, \<^verbatim>\<open>bool\<close> and \<^verbatim>\<open>int\<close> are INTEGER when they fit 64 bits,
  \<^verbatim>\<open>str\<close> is TEXT, a list or a dictionary cannot be bound), and a column declared TEXT
  then stores an INTEGER as its decimal text.
\<close>

datatype sql_value = SqlNull | SqlInt int | SqlText string

fun bind_param :: "pyval \<Rightarrow> py_error + sql_value" where
  "bind_param PyNone = Inr SqlNull"
| "bind_param (PyBool b) = Inr (SqlInt (if b then 1 else 0))"
| "bind_param (PyInt n) =
     (if - (2 ^ 63) \<le> n \<and> n < 2 ^ 63 then Inr (SqlInt n) else Inl OverflowError)"
| "bind_param (PyStr s) = Inr (SqlText s)"
| "bind_param (PyList xs) = Inl ProgrammingError"
| "bind_param (PyDict kvs) = Inl ProgrammingError"

fun text_affinity :: "sql_value \<Rightarrow> sql_value" where
  "text_affinity (SqlInt n) = SqlText (str_int n)"
| "text_affinity v = v"

fun to_py :: "sql_value \<Rightarrow> pyval" where
  "to_py SqlNull = PyNone"
| "to_py (SqlInt n) = PyInt n"
| "to_py (SqlText s) = PyStr s"

text \<open>
  One row of table \<^verbatim>\<open>startups\<close>, column by column as \<^verbatim>\<open>init_database\<close> declares them.
  Timestamps are the instants \<^verbatim>\<open>CURRENT_TIMESTAMP\<close> stands for, counted in seconds.
\<close>

record startup_row =
  st_id :: nat
  st_name :: sql_value
  st_website :: sql_value
  st_description :: sql_value
  st_category :: sql_value
  st_founded_date :: sql_value
  st_country :: sql_value
  st_india_fit_score :: sql_value
  st_india_fit_analysis :: sql_value
  st_primary_tier :: sql_value
  st_secondary_tiers :: sql_value
  st_source :: sql_value
  st_source_url :: sql_value
  st_created_at :: nat
  st_updated_at :: nat
  st_hash :: sql_value

text \<open>One row of table \<^verbatim>\<open>run_metadata\<close>.\<close>

record run_row =
  rm_id :: nat
  rm_run_id :: string
  rm_run_date :: nat
  rm_total_startups_found :: nat
  rm_tier_1_count :: nat
  rm_tier_2_count :: nat
  rm_tier_3_count :: nat
  rm_processing_time_seconds :: real
  rm_status :: string
  rm_report_path :: string
  rm_created_at :: nat

text \<open>
  The database file: the rows of each table in the order of their row ids. Table
  \<^verbatim>\<open>knowledge_base\<close> is created by \<^verbatim>\<open>init_database\<close> and never read or written.
\<close>

record database =
  startups :: "startup_row list"
  run_metadata :: "run_row list"

definition empty_database :: database where
  "empty_database = \<lparr>startups = [], run_metadata = []\<rparr>"

subsection \<open>\<^verbatim>\<open>init_database\<close>\<close>


subsection \<open>\<^verbatim>\<open>insert_startup\<close>\<close>

fun bind_params :: "pyval list \<Rightarrow> py_error + sql_value list" where
  "bind_params [] = Inr []"
| "bind_params (v # vs) =
     (case bind_param v of
        Inl e \<Rightarrow> Inl e
      | Inr x \<Rightarrow> (case bind_params vs of Inl e \<Rightarrow> Inl e | Inr xs \<Rightarrow> Inr (x # xs)))"

text \<open>\<^verbatim>\<open>AUTOINCREMENT\<close>: one more than the largest row id (no row is ever deleted).\<close>

definition next_id :: "nat list \<Rightarrow> nat" where
  "next_id ids = Suc (foldr max ids 0)"

text \<open>
  The \<^verbatim>\<open>INSERT\<close> statement with its thirteen bound values, under the constraints of the
  schema: \<^verbatim>\<open>name TEXT NOT NULL UNIQUE\<close> and \<^verbatim>\<open>hash TEXT UNIQUE\<close> (NULLs never collide).
  \<open>aff\<close> is what the engine does to a value stored in the INTEGER column
  \<^verbatim>\<open>india_fit_score\<close>; no property below depends on it.
\<close>

fun insert_into_startups ::
  "(sql_value \<Rightarrow> sql_value) \<Rightarrow> nat \<Rightarrow> database \<Rightarrow> sql_value list \<Rightarrow> py_error + database" where
  "insert_into_startups aff now db
     [name, website, description, category, founded_date, country, india_fit_score,
      india_fit_analysis, primary_tier, secondary_tiers, source, source_url, hash] =
     (let name' = text_affinity name; hash' = text_affinity hash
      in if name' = SqlNull then Inl IntegrityError
         else if name' \<in> set (map st_name (startups db)) then Inl IntegrityError
         else if hash' \<noteq> SqlNull \<and> hash' \<in> set (map st_hash (startups db)) then Inl IntegrityError
         else Inr (db\<lparr>startups := startups db @
           [\<lparr>st_id = next_id (map st_id (startups db)),
             st_name = name',
             st_website = text_affinity website,
             st_description = text_affinity description,
             st_category = text_affinity category,
             st_founded_date = text_affinity founded_date,
             st_country = text_affinity country,
             st_india_fit_score = aff india_fit_score,
             st_india_fit_analysis = text_affinity india_fit_analysis,
             st_primary_tier = text_affinity primary_tier,
             st_secondary_tiers = text_affinity secondary_tiers,
             st_source = text_affinity source,
             st_source_url = text_affinity source_url,
             st_created_at = now,
             st_updated_at = now,
             st_hash = hash'\<rparr>]\<rparr>))"
| "insert_into_startups aff now db vs = Inl ProgrammingError"

text \<open>
  The tuple of values handed to the statement. A list-valued \<^verbatim>\<open>secondary_tiers\<close> is
  replaced by its JSON text first.
\<close>

definition insert_params :: "pydict \<Rightarrow> pyval list" where
  "insert_params startup_data =
     (let secondary_tiers = dict_get startup_data ''secondary_tiers'';
          secondary_tiers = (if is_list secondary_tiers
                             then PyStr (json_dumps secondary_tiers) else secondary_tiers)
      in [dict_get startup_data ''name'',
          dict_get startup_data ''website'',
          dict_get startup_data ''description'',
          dict_get startup_data ''category'',
          dict_get startup_data ''founded_date'',
          dict_get startup_data ''country'',
          dict_get_default startup_data ''india_fit_score'' (PyInt 0),
          dict_get startup_data ''india_fit_analysis'',
          dict_get startup_data ''primary_tier'',
          secondary_tiers,
          dict_get startup_data ''source'',
          dict_get startup_data ''source_url'',
          dict_get startup_data ''hash''])"

text \<open>The body of the \<^verbatim>\<open>try\<close> block: what it raises, or the database after the commit.\<close>

definition insert_startup_try ::
  "bool \<Rightarrow> (sql_value \<Rightarrow> sql_value) \<Rightarrow> nat \<Rightarrow> database \<Rightarrow> pydict \<Rightarrow> py_error + database" where
  "insert_startup_try ok aff now db startup_data =
     (if \<not> ok then Inl OperationalError
      else case bind_params (insert_params startup_data) of
             Inl e \<Rightarrow> Inl e
           | Inr vs \<Rightarrow> insert_into_startups aff now db vs)"

text \<open>
  \<^verbatim>\<open>insert_startup\<close>: both \<^verbatim>\<open>except\<close> clauses return \<^verbatim>\<open>False\<close>, and nothing was
  committed. The result is paired with the database after the call.
\<close>

definition insert_startup ::
  "bool \<Rightarrow> (sql_value \<Rightarrow> sql_value) \<Rightarrow> nat \<Rightarrow> database \<Rightarrow> pydict \<Rightarrow> bool \<times> database" where
  "insert_startup ok aff now db startup_data =
     (case insert_startup_try ok aff now db startup_data of
        Inr db' \<Rightarrow> (True, db')
      | Inl IntegrityError \<Rightarrow> (False, db)
      | Inl e \<Rightarrow> (False, db))"

subsection \<open>\<^verbatim>\<open>get_all_startups\<close>, \<^verbatim>\<open>get_startups_by_tier\<close>\<close>

text \<open>\<^verbatim>\<open>dict(row)\<close>: the columns of a row under their names.\<close>

definition row_dict :: "startup_row \<Rightarrow> pydict" where
  "row_dict r =
     [(''id'', PyInt (int (st_id r))),
      (''name'', to_py (st_name r)),
      (''website'', to_py (st_website r)),
      (''description'', to_py (st_description r)),
      (''category'', to_py (st_category r)),
      (''founded_date'', to_py (st_founded_date r)),
      (''country'', to_py (st_country r)),
      (''india_fit_score'', to_py (st_india_fit_score r)),
      (''india_fit_analysis'', to_py (st_india_fit_analysis r)),
      (''primary_tier'', to_py (st_primary_tier r)),
      (''secondary_tiers'', to_py (st_secondary_tiers r)),
      (''source'', to_py (st_source r)),
      (''source_url'', to_py (st_source_url r)),
      (''created_at'', PyInt (int (st_created_at r))),
      (''updated_at'', PyInt (int (st_updated_at r))),
      (''hash'', to_py (st_hash r))]"

text \<open>
  \<^verbatim>\<open>ORDER BY created_at DESC\<close>; rows of the same instant stay in row-id order.
\<close>

definition order_by_created_at_desc :: "startup_row list \<Rightarrow> startup_row list" where
  "order_by_created_at_desc rows = sort_key (\<lambda>r. - int (st_created_at r)) rows"

definition get_all_startups :: "bool \<Rightarrow> database \<Rightarrow> pydict list" where
  "get_all_startups ok db =
     (if \<not> ok then []
      else map row_dict (order_by_created_at_desc (startups db)))"

text \<open>
  \<^verbatim>\<open>WHERE primary_tier = ? ORDER BY india_fit_score DESC\<close>. The engine orders INTEGER
  values numerically, NULL below them and TEXT above them.
\<close>

fun score_rank :: "sql_value \<Rightarrow> int \<times> int" where
  "score_rank SqlNull = (0, 0)"
| "score_rank (SqlInt n) = (1, n)"
| "score_rank (SqlText s) = (2, 0)"

fun str_less :: "string \<Rightarrow> string \<Rightarrow> bool" where
  "str_less [] [] = False"
| "str_less [] (y # ys) = True"
| "str_less (x # xs) [] = False"
| "str_less (x # xs) (y # ys) =
     ((of_char x :: nat) < of_char y \<or> (x = y \<and> str_less xs ys))"

definition score_less :: "sql_value \<Rightarrow> sql_value \<Rightarrow> bool" where
  "score_less a b =
     (case (a, b) of
        (SqlInt m, SqlInt n) \<Rightarrow> m < n
      | (SqlText s, SqlText t) \<Rightarrow> str_less s t
      | _ \<Rightarrow> fst (score_rank a) < fst (score_rank b))"

fun insert_desc :: "startup_row \<Rightarrow> startup_row list \<Rightarrow> startup_row list" where
  "insert_desc r [] = [r]"
| "insert_desc r (y # ys) =
     (if score_less (st_india_fit_score y) (st_india_fit_score r)
      then r # y # ys else y # insert_desc r ys)"

definition order_by_india_fit_score_desc :: "startup_row list \<Rightarrow> startup_row list" where
  "order_by_india_fit_score_desc rows = foldl (\<lambda>acc r. insert_desc r acc) [] rows"

definition get_startups_by_tier :: "bool \<Rightarrow> database \<Rightarrow> string \<Rightarrow> pydict list" where
  "get_startups_by_tier ok db tier =
     (if \<not> ok then []
      else map row_dict
             (order_by_india_fit_score_desc
                (filter (\<lambda>r. st_primary_tier r = SqlText tier) (startups db))))"

text \<open>
  \<^verbatim>\<open>DatabaseQueries.get_all_startups\<close> of \<^verbatim>\<open>utils/db_queries.py\<close>: the same query on a
  connection of its own, with the same \<^verbatim>\<open>except\<close> clause.
\<close>

definition DatabaseQueries_get_all_startups :: "bool \<Rightarrow> database \<Rightarrow> pydict list" where
  "DatabaseQueries_get_all_startups ok db =
     (if \<not> ok then []
      else map row_dict (order_by_created_at_desc (startups db)))"

subsection \<open>\<^verbatim>\<open>insert_run_metadata\<close>, \<^verbatim>\<open>get_latest_run\<close>\<close>

text \<open>
  The dictionary \<^verbatim>\<open>run_data\<close>, with the keys and the types its only caller gives it.
\<close>

record run_data =
  rd_run_id :: string
  rd_total_startups_found :: nat
  rd_tier_1_count :: nat
  rd_tier_2_count :: nat
  rd_tier_3_count :: nat
  rd_processing_time_seconds :: real
  rd_status :: string
  rd_report_path :: string

text \<open>
  \<^verbatim>\<open>run_id TEXT UNIQUE NOT NULL\<close>. Every exception, the constraint violation included,
  is caught and answered by \<^verbatim>\<open>False\<close>.
\<close>

definition insert_run_metadata :: "bool \<Rightarrow> nat \<Rightarrow> database \<Rightarrow> run_data \<Rightarrow> bool \<times> database" where
  "insert_run_metadata ok now db rd =
     (if \<not> ok then (False, db)
      else if rd_run_id rd \<in> set (map rm_run_id (run_metadata db)) then (False, db)
      else (True, db\<lparr>run_metadata := run_metadata db @
              [\<lparr>rm_id = next_id (map rm_id (run_metadata db)),
                rm_run_id = rd_run_id rd,
                rm_run_date = now,
                rm_total_startups_found = rd_total_startups_found rd,
                rm_tier_1_count = rd_tier_1_count rd,
                rm_tier_2_count = rd_tier_2_count rd,
                rm_tier_3_count = rd_tier_3_count rd,
                rm_processing_time_seconds = rd_processing_time_seconds rd,
                rm_status = rd_status rd,
                rm_report_path = rd_report_path rd,
                rm_created_at = now\<rparr>]\<rparr>))"

text \<open>\<^verbatim>\<open>ORDER BY run_date DESC LIMIT 1\<close>.\<close>

definition get_latest_run :: "bool \<Rightarrow> database \<Rightarrow> run_row option" where
  "get_latest_run ok db =
     (if \<not> ok then None
      else case sort_key (\<lambda>r. - int (rm_run_date r)) (run_metadata db) of
             [] \<Rightarrow> None
           | r # rs \<Rightarrow> Some r)"

section \<open>Extraction and merge: \<^verbatim>\<open>crew_orchestration.py\<close>\<close>

subsection \<open>\<^verbatim>\<open>parse_startup_data\<close>\<close>





subsection \<open>\<^verbatim>\<open>extract_tier_info\<close>, \<^verbatim>\<open>extract_market_fit\<close>\<close>

text \<open>
  The two annotation dictionaries are keyed by whatever the name field holds. A list or
  a dictionary cannot be a key (\<^verbatim>\<open>TypeError\<close>, which these functions do not catch, no
  more than the decoder's exceptions other than \<^verbatim>\<open>JSONDecodeError\<close>);
  \<^verbatim>\<open>True\<close> and \<^verbatim>\<open>1\<close>, \<^verbatim>\<open>False\<close> and \<^verbatim>\<open>0\<close> are the same key.
\<close>

type_synonym annotations = "(pyval \<times> pydict) list"

fun hashable :: "pyval \<Rightarrow> bool" where
  "hashable (PyList xs) = False"
| "hashable (PyDict kvs) = False"
| "hashable v = True"

fun dict_key :: "pyval \<Rightarrow> pyval" where
  "dict_key (PyBool b) = PyInt (if b then 1 else 0)"
| "dict_key v = v"






section \<open>Deduplication keys: \<^verbatim>\<open>tools/search_tools.py\<close>\<close>

text \<open>
  \<^verbatim>\<open>generate_hash\<close>: the MD5 digest (a parameter) of the lower-cased name, the
  lower-cased website and the founding date, concatenated.
\<close>

definition generate_hash :: "(string \<Rightarrow> string) \<Rightarrow> string \<Rightarrow> string \<Rightarrow> string \<Rightarrow> string" where
  "generate_hash md5_hexdigest name website founded_date =
     md5_hexdigest (lower name @ lower website @ founded_date)"

subsection \<open>Similar names: \<^verbatim>\<open>fuzzy_match\<close>, \<^verbatim>\<open>is_duplicate\<close>\<close>

























section \<open>Persisting a run: \<^verbatim>\<open>_process_and_save_results\<close> and \<^verbatim>\<open>run\<close>\<close>

text \<open>
  What the run takes from outside the repository: the JSON decoder, Python's built-in
  \<^verbatim>\<open>hash\<close> (salted per process for strings), the engine's conversion for the INTEGER
  column, and for the \<open>k\<close>-th call of a \<^verbatim>\<open>db.py\<close> function during the run whether the
  database can be used and what \<^verbatim>\<open>CURRENT_TIMESTAMP\<close> is.
\<close>

record world =
  json_loads :: "string \<Rightarrow> py_error + pyval"
  py_hash :: "pyval \<Rightarrow> int"
  integer_affinity :: "sql_value \<Rightarrow> sql_value"
  storage_ok :: "nat \<Rightarrow> bool"
  clock :: "nat \<Rightarrow> nat"

text \<open>The number of \<^verbatim>\<open>db.py\<close> calls made so far, and the database.\<close>

record run_state =
  rs_calls :: nat
  rs_db :: database

text \<open>
  The body of the insert loop for a dictionary \<^verbatim>\<open>startup\<close> with a true \<^verbatim>\<open>name\<close>: the
  dictionary \<^verbatim>\<open>startup_data\<close> handed to \<^verbatim>\<open>insert_startup\<close>. The hash is
  \<^verbatim>\<open>hash(name)\<close>; a name that cannot be hashed raises \<^verbatim>\<open>TypeError\<close>.
\<close>

definition merge_startup ::
  "(pyval \<Rightarrow> int) \<Rightarrow> annotations \<Rightarrow> annotations \<Rightarrow> pydict \<Rightarrow> pyval \<Rightarrow> py_error + pydict" where
  "merge_startup hash tier_info fit_info startup name =
     (if \<not> hashable name then Inl TypeError
      else
        let startup_data =
              [(''name'', name),
               (''website'', py_or (dict_get startup ''website'') (dict_get startup ''url'')),
               (''description'', dict_get startup ''description''),
               (''category'', dict_get startup ''category''),
               (''founded_date'',
                  py_or (dict_get startup ''founded_date'') (dict_get startup ''date'')),
               (''country'', dict_get startup ''country''),
               (''source'', dict_get startup ''source''),
               (''source_url'', dict_get startup ''source_url''),
               (''hash'', PyInt (hash name))];
            startup_data =
              (case map_of tier_info (dict_key name) of
                 Some t \<Rightarrow>
                   dict_set (dict_set startup_data ''primary_tier'' (dict_get t ''primary_tier''))
                     ''secondary_tiers'' (dict_get t ''secondary_tiers'')
               | None \<Rightarrow>
                   if dict_has startup ''primary_tier''
                   then dict_set
                          (dict_set startup_data ''primary_tier'' (dict_get startup ''primary_tier''))
                          ''secondary_tiers'' (dict_get startup ''secondary_tiers'')
                   else startup_data);
            startup_data =
              (case map_of fit_info (dict_key name) of
                 Some f \<Rightarrow>
                   dict_set
                     (dict_set startup_data ''india_fit_score''
                        (dict_get_default f ''score'' (PyInt 0)))
                     ''india_fit_analysis'' (dict_get f ''analysis'')
               | None \<Rightarrow>
                   if dict_has startup ''india_fit_score''
                   then dict_set
                          (dict_set startup_data ''india_fit_score''
                             (dict_get_default startup ''india_fit_score'' (PyInt 0)))
                          ''india_fit_analysis'' (dict_get startup ''india_fit_analysis'')
                   else startup_data)
        in Inr startup_data)"


text \<open>
  For the statements about the loop: the name the loop reads from an element (no name
  for an element that is not a dictionary), and what the loop does with one merged
  dictionary, the call of \<^verbatim>\<open>insert_startup\<close> and the count.
\<close>

definition record_name :: "pyval \<Rightarrow> pyval" where
  "record_name startup =
     (case startup of
        PyDict d \<Rightarrow> py_or (dict_get d ''name'') (dict_get d ''startup_name'')
      | other \<Rightarrow> PyNone)"


text \<open>
  The final counts and the run summary (the lines after the loop): one call of
  \<^verbatim>\<open>get_all_startups\<close>, one of \<^verbatim>\<open>insert_run_metadata\<close>, whose result is ignored.
\<close>

definition count_tier :: "string \<Rightarrow> pydict list \<Rightarrow> nat" where
  "count_tier tier all_startups =
     length (filter (\<lambda>s. dict_get s ''primary_tier'' = PyStr tier) all_startups)"

definition final_run_data :: "string \<Rightarrow> real \<Rightarrow> string \<Rightarrow> pydict list \<Rightarrow> run_data" where
  "final_run_data run_id processing_time report_path all_startups =
     \<lparr>rd_run_id = run_id,
      rd_total_startups_found = length all_startups,
      rd_tier_1_count = count_tier ''Tier 1'' all_startups,
      rd_tier_2_count = count_tier ''Tier 2'' all_startups,
      rd_tier_3_count = count_tier ''Tier 3'' all_startups,
      rd_processing_time_seconds = processing_time,
      rd_status = ''completed'',
      rd_report_path = report_path\<rparr>"

definition save_run_metadata ::
  "world \<Rightarrow> string \<Rightarrow> real \<Rightarrow> string \<Rightarrow> run_state \<Rightarrow> run_state" where
  "save_run_metadata w run_id processing_time report_path st =
     (let all_startups = get_all_startups (storage_ok w (rs_calls st)) (rs_db st);
          run_data = final_run_data run_id processing_time report_path all_startups
      in case insert_run_metadata (storage_ok w (Suc (rs_calls st)))
                (clock w (Suc (rs_calls st))) (rs_db st) run_data of
           (written, db') \<Rightarrow> \<lparr>rs_calls = Suc (Suc (rs_calls st)), rs_db = db'\<rparr>)"



section \<open>Concrete data for the examples\<close>

definition acme_row :: startup_row where
  "acme_row =
     \<lparr>st_id = 1, st_name = SqlText ''Acme'', st_website = SqlText ''https://acme.com'',
      st_description = SqlNull, st_category = SqlNull, st_founded_date = SqlNull,
      st_country = SqlNull, st_india_fit_score = SqlInt 0, st_india_fit_analysis = SqlNull,
      st_primary_tier = SqlNull, st_secondary_tiers = SqlNull, st_source = SqlNull,
      st_source_url = SqlNull, st_created_at = 100, st_updated_at = 100,
      st_hash = SqlText ''h1''\<rparr>"

text \<open>
  Result texts and what \<^verbatim>\<open>json.loads\<close> returns for them (for any other text of the
  examples it raises \<^verbatim>\<open>JSONDecodeError\<close>), and a world in which the storage works
  throughout and the hash of a string is its length.
\<close>

definition example_text :: string where
  \<open>example_text = ''[{"name": "Acme", "primary_tier": "Tier 2"}]''\<close>

definition mixed_text :: string where
  \<open>mixed_text = ''[1, {"name": "Acme"}]''\<close>

definition acme_list_text :: string where
  \<open>acme_list_text = ''[{"name": "Acme"}]''\<close>


definition wrapped_text :: string where
  \<open>wrapped_text = ''{"startups": [{"name": "Acme"}, {"name": ["x"]}, {"name": "Zed"}]}''\<close>

definition example_loads :: "string \<Rightarrow> py_error + pyval" where
  "example_loads s =
     (if s = example_text
      then Inr (PyList [PyDict [(''name'', PyStr ''Acme''), (''primary_tier'', PyStr ''Tier 2'')]])
      else if s = mixed_text
      then Inr (PyList [PyInt 1, PyDict [(''name'', PyStr ''Acme'')]])
      else if s = acme_list_text
      then Inr (PyList [PyDict [(''name'', PyStr ''Acme'')]])
      else if s = wrapped_text
      then Inr (PyDict [(''startups'',
             PyList [PyDict [(''name'', PyStr ''Acme'')],
                     PyDict [(''name'', PyList [PyStr ''x''])],
                     PyDict [(''name'', PyStr ''Zed'')]])])
      else Inl JSONDecodeError)"

definition example_hash :: "pyval \<Rightarrow> int" where
  "example_hash v = (case v of PyStr s \<Rightarrow> int (length s) | other \<Rightarrow> 0)"

definition example_world :: world where
  "example_world =
     \<lparr>json_loads = example_loads,
      py_hash = example_hash,
      integer_affinity = (\<lambda>v. v),
      storage_ok = (\<lambda>k. True),
      clock = (\<lambda>k. 100 + k)\<rparr>"

definition tiered_row :: "nat \<Rightarrow> string \<Rightarrow> string \<Rightarrow> startup_row" where
  "tiered_row i name tier =
     acme_row\<lparr>st_id := i, st_name := SqlText name, st_primary_tier := SqlText tier,
              st_hash := SqlText name\<rparr>"

definition three_startups :: database where
  "three_startups =
     \<lparr>startups = [tiered_row 1 ''A'' ''Tier 1'', tiered_row 2 ''B'' ''Tier 1'',
                  tiered_row 3 ''C'' ''Tier 2''],
      run_metadata = []\<rparr>"

text \<open>A record with two secondary tiers, and the JSON text of the two.\<close>

definition beta_record :: pydict where
  "beta_record =
     [(''name'', PyStr ''Beta''), (''primary_tier'', PyStr ''Tier 1''),
      (''secondary_tiers'', PyList [PyStr ''Tier 2'', PyStr ''Tier 3''])]"

definition beta_tiers_text :: string where
  \<open>beta_tiers_text = ''["Tier 2", "Tier 3"]''\<close>

section \<open>Properties\<close>

subsection \<open>Rejected inserts\<close>

lemma bind_params_Inr:
  "bind_params vs = Inr xs \<Longrightarrow> list_all2 (\<lambda>v x. bind_param v = Inr x) vs xs"
  by (induction vs arbitrary: xs) (auto split: sum.splits)

text \<open>What a committed insert has done: the values bound, the constraints, the new row.\<close>

lemma insert_startup_try_Inr:
  assumes "insert_startup_try ok aff now db sd = Inr db'"
  obtains x1 x2 x3 x4 x5 x6 x7 x8 x9 x10 x11 x12 x13 where
    "bind_param (dict_get sd ''name'') = Inr x1"
    "bind_param (dict_get sd ''primary_tier'') = Inr x9"
    "bind_param (if is_list (dict_get sd ''secondary_tiers'')
               then PyStr (json_dumps (dict_get sd ''secondary_tiers''))
               else dict_get sd ''secondary_tiers'') = Inr x10"
    "bind_param (dict_get sd ''hash'') = Inr x13"
    "text_affinity x1 \<noteq> SqlNull"
    "text_affinity x1 \<notin> st_name ` set (startups db)"
    "text_affinity x13 = SqlNull \<or> text_affinity x13 \<notin> st_hash ` set (startups db)"
    "db' = db\<lparr>startups := startups db @
           [\<lparr>st_id = next_id (map st_id (startups db)),
             st_name = text_affinity x1,
             st_website = text_affinity x2,
             st_description = text_affinity x3,
             st_category = text_affinity x4,
             st_founded_date = text_affinity x5,
             st_country = text_affinity x6,
             st_india_fit_score = aff x7,
             st_india_fit_analysis = text_affinity x8,
             st_primary_tier = text_affinity x9,
             st_secondary_tiers = text_affinity x10,
             st_source = text_affinity x11,
             st_source_url = text_affinity x12,
             st_created_at = now,
             st_updated_at = now,
             st_hash = text_affinity x13\<rparr>]\<rparr>"
proof -
  from assms have ok: ok
    by (auto simp: insert_startup_try_def split: if_splits)
  from assms ok obtain vs where vs: "bind_params (insert_params sd) = Inr vs"
    and ins: "insert_into_startups aff now db vs = Inr db'"
    by (cases "bind_params (insert_params sd)") (simp_all add: insert_startup_try_def)
  have "list_all2 (\<lambda>v x. bind_param v = Inr x) (insert_params sd) vs"
    using vs by (rule bind_params_Inr)
  then obtain x1 x2 x3 x4 x5 x6 x7 x8 x9 x10 x11 x12 x13 where
    vs_eq: "vs = [x1, x2, x3, x4, x5, x6, x7, x8, x9, x10, x11, x12, x13]"
    and x1: "bind_param (dict_get sd ''name'') = Inr x1"
    and x9: "bind_param (dict_get sd ''primary_tier'') = Inr x9"
    and x10: "bind_param (if is_list (dict_get sd ''secondary_tiers'')
               then PyStr (json_dumps (dict_get sd ''secondary_tiers''))
               else dict_get sd ''secondary_tiers'') = Inr x10"
    and x13: "bind_param (dict_get sd ''hash'') = Inr x13"
    unfolding insert_params_def Let_def list_all2_Cons1 by blast
  have c1: "text_affinity x1 \<noteq> SqlNull"
    using ins unfolding vs_eq by (simp add: Let_def split: if_splits)
  have c2: "text_affinity x1 \<notin> st_name ` set (startups db)"
    using ins unfolding vs_eq by (simp add: Let_def split: if_splits)
  have c3: "text_affinity x13 = SqlNull \<or> text_affinity x13 \<notin> st_hash ` set (startups db)"
    using ins unfolding vs_eq by (simp add: Let_def split: if_splits)
  have "db' = db\<lparr>startups := startups db @
           [\<lparr>st_id = next_id (map st_id (startups db)),
             st_name = text_affinity x1,
             st_website = text_affinity x2,
             st_description = text_affinity x3,
             st_category = text_affinity x4,
             st_founded_date = text_affinity x5,
             st_country = text_affinity x6,
             st_india_fit_score = aff x7,
             st_india_fit_analysis = text_affinity x8,
             st_primary_tier = text_affinity x9,
             st_secondary_tiers = text_affinity x10,
             st_source = text_affinity x11,
             st_source_url = text_affinity x12,
             st_created_at = now,
             st_updated_at = now,
             st_hash = text_affinity x13\<rparr>]\<rparr>"
    using ins c1 c2 c3 unfolding vs_eq by (simp add: Let_def split: if_splits)
  with x1 x9 x10 x13 c1 c2 c3 show thesis
    by (rule that)
qed

lemma insert_startup_True:
  "insert_startup ok aff now db sd = (True, db') \<longleftrightarrow> insert_startup_try ok aff now db sd = Inr db'"
  by (auto simp: insert_startup_def split: sum.splits py_error.splits)

lemma insert_startup_not_True:
  assumes "\<And>db'. insert_startup_try ok aff now db sd \<noteq> Inr db'"
  shows "insert_startup ok aff now db sd = (False, db)"
  using assms by (auto simp: insert_startup_def split: sum.splits py_error.splits)

lemma name_collision:
  assumes "r \<in> set (startups db)" "bind_param (dict_get sd ''name'') = Inr x"
    "st_name r = text_affinity x"
  shows "insert_startup ok aff now db sd = (False, db)"
proof (rule insert_startup_not_True)
  fix db'
  show "insert_startup_try ok aff now db sd \<noteq> Inr db'"
  proof
    assume "insert_startup_try ok aff now db sd = Inr db'"
    then show False
      using assms by (elim insert_startup_try_Inr) force
  qed
qed

lemma hash_collision:
  assumes "r \<in> set (startups db)" "bind_param (dict_get sd ''hash'') = Inr h"
    "st_hash r = text_affinity h" "text_affinity h \<noteq> SqlNull"
  shows "insert_startup ok aff now db sd = (False, db)"
proof (rule insert_startup_not_True)
  fix db'
  show "insert_startup_try ok aff now db sd \<noteq> Inr db'"
  proof
    assume "insert_startup_try ok aff now db sd = Inr db'"
    then show False
      using assms by (elim insert_startup_try_Inr) force
  qed
qed

lemma insert_twice:
  assumes "insert_startup ok aff now db sd = (True, db')"
  shows "length (startups db') = Suc (length (startups db))"
    and "take (length (startups db)) (startups db') = startups db"
    and "insert_startup ok2 aff2 now2 db' sd = (False, db')"
proof -
  from assms have t: "insert_startup_try ok aff now db sd = Inr db'"
    by (simp add: insert_startup_True)
  from t show "length (startups db') = Suc (length (startups db))"
    by (elim insert_startup_try_Inr) simp
  from t show "take (length (startups db)) (startups db') = startups db"
    by (elim insert_startup_try_Inr) simp
  from t obtain x r where "bind_param (dict_get sd ''name'') = Inr x" "r \<in> set (startups db')"
    "st_name r = text_affinity x"
    by (elim insert_startup_try_Inr) force
  then show "insert_startup ok2 aff2 now2 db' sd = (False, db')"
    using name_collision by blast
qed

text \<open>
  Claim C2. Whatever the store holds: a record whose name, or whose hash, is the one a
  stored row already has (as the column stores it: a string as it is, an integer as its
  decimal text) is not inserted. \<^verbatim>\<open>insert_startup\<close> returns \<^verbatim>\<open>False\<close> and the database
  is the one before the call, so no row is added and none is changed. Hence the same
  record inserted twice adds one row: the first insert appends it after the existing
  rows, the second is rejected.
\<close>

theorem insert_startup_rejects_duplicate:
  "(r \<in> set (startups db) \<and>
      ((bind_param (dict_get sd ''name'') = Inr x \<and> st_name r = text_affinity x) \<or>
       (bind_param (dict_get sd ''hash'') = Inr h \<and> st_hash r = text_affinity h
          \<and> text_affinity h \<noteq> SqlNull))
      \<longrightarrow> insert_startup ok aff now db sd = (False, db))
   \<and> (insert_startup ok aff now db sd = (True, db')
      \<longrightarrow> length (startups db') = Suc (length (startups db))
          \<and> take (length (startups db)) (startups db') = startups db
          \<and> insert_startup ok2 aff2 now2 db' sd = (False, db'))"
proof (intro conjI impI)
  assume "r \<in> set (startups db) \<and>
      ((bind_param (dict_get sd ''name'') = Inr x \<and> st_name r = text_affinity x) \<or>
       (bind_param (dict_get sd ''hash'') = Inr h \<and> st_hash r = text_affinity h
          \<and> text_affinity h \<noteq> SqlNull))"
  then show "insert_startup ok aff now db sd = (False, db)"
    using name_collision [of r db sd x ok aff now] hash_collision [of r db sd h ok aff now]
    by blast
next
  assume "insert_startup ok aff now db sd = (True, db')"
  then show "length (startups db') = Suc (length (startups db))"
    by (rule insert_twice(1))
next
  assume "insert_startup ok aff now db sd = (True, db')"
  then show "take (length (startups db)) (startups db') = startups db"
    by (rule insert_twice(2))
next
  assume "insert_startup ok aff now db sd = (True, db')"
  then show "insert_startup ok2 aff2 now2 db' sd = (False, db')"
    by (rule insert_twice(3))
qed

text \<open>
  The theorem at work: a record goes into the empty store; the same record again, a
  record with another name and the same hash, and one with the same name and another
  hash are all rejected, and the store keeps its single row.
\<close>

theorem insert_startup_rejects_duplicate_witness:
  "insert_startup True (\<lambda>v. v) 100 empty_database
      [(''name'', PyStr ''Acme''), (''website'', PyStr ''https://acme.com''),
       (''hash'', PyStr ''h1'')]
     = (True, \<lparr>startups = [acme_row], run_metadata = []\<rparr>)
   \<and> insert_startup True (\<lambda>v. v) 200 \<lparr>startups = [acme_row], run_metadata = []\<rparr>
      [(''name'', PyStr ''Acme''), (''website'', PyStr ''https://acme.com''),
       (''hash'', PyStr ''h1'')]
     = (False, \<lparr>startups = [acme_row], run_metadata = []\<rparr>)
   \<and> insert_startup True (\<lambda>v. v) 200 \<lparr>startups = [acme_row], run_metadata = []\<rparr>
      [(''name'', PyStr ''Acme Corp''), (''hash'', PyStr ''h1'')]
     = (False, \<lparr>startups = [acme_row], run_metadata = []\<rparr>)
   \<and> insert_startup True (\<lambda>v. v) 200 \<lparr>startups = [acme_row], run_metadata = []\<rparr>
      [(''name'', PyStr ''Acme''), (''hash'', PyStr ''h2'')]
     = (False, \<lparr>startups = [acme_row], run_metadata = []\<rparr>)"
proof -
  let ?sd = "[(''name'', PyStr ''Acme''), (''website'', PyStr ''https://acme.com''),
              (''hash'', PyStr ''h1'')]"
  let ?db = "\<lparr>startups = [acme_row], run_metadata = []\<rparr>"
  have first: "insert_startup True (\<lambda>v. v) 100 empty_database ?sd = (True, ?db)"
    by (simp add: insert_startup_def insert_startup_try_def insert_params_def dict_get_def
        dict_get_default_def empty_database_def next_id_def acme_row_def)
  have second: "insert_startup True (\<lambda>v. v) 200 ?db ?sd = (False, ?db)"
    using insert_startup_rejects_duplicate
      [where db = empty_database and sd = ?sd and ok = True and aff = "\<lambda>v. v" and now = 100
         and db' = ?db and ?ok2.0 = True and ?aff2.0 = "\<lambda>v. v" and ?now2.0 = 200]
      first
    by simp
  have by_hash: "insert_startup True (\<lambda>v. v) 200 ?db
      [(''name'', PyStr ''Acme Corp''), (''hash'', PyStr ''h1'')] = (False, ?db)"
    using insert_startup_rejects_duplicate
      [of acme_row ?db "[(''name'', PyStr ''Acme Corp''), (''hash'', PyStr ''h1'')]"
          "SqlText ''Acme Corp''" "SqlText ''h1''" True "\<lambda>v. v" 200]
    by (simp add: dict_get_def dict_get_default_def acme_row_def)
  have by_name: "insert_startup True (\<lambda>v. v) 200 ?db
      [(''name'', PyStr ''Acme''), (''hash'', PyStr ''h2'')] = (False, ?db)"
    using insert_startup_rejects_duplicate
      [of acme_row ?db "[(''name'', PyStr ''Acme''), (''hash'', PyStr ''h2'')]"
          "SqlText ''Acme''" "SqlText ''h2''" True "\<lambda>v. v" 200]
    by (simp add: dict_get_def dict_get_default_def acme_row_def)
  from first second by_hash by_name show ?thesis by simp
qed

subsection \<open>Failed queries\<close>

text \<open>
  Claim C10. When the storage fails during a query, \<^verbatim>\<open>get_all_startups\<close>,
  \<^verbatim>\<open>get_startups_by_tier\<close> and \<^verbatim>\<open>DatabaseQueries.get_all_startups\<close> return the empty
  list: the answer an empty store gives, whatever the store holds.
\<close>

theorem failed_query_returns_empty_list:
  "get_all_startups False db = []
   \<and> get_startups_by_tier False db tier = []
   \<and> DatabaseQueries_get_all_startups False db = []
   \<and> get_all_startups False db = get_all_startups True empty_database
   \<and> get_startups_by_tier False db tier = get_startups_by_tier True empty_database tier
   \<and> DatabaseQueries_get_all_startups False db
       = DatabaseQueries_get_all_startups True empty_database"
  by (simp add: get_all_startups_def get_startups_by_tier_def
      DatabaseQueries_get_all_startups_def empty_database_def
      order_by_created_at_desc_def order_by_india_fit_score_desc_def)

subsection \<open>Merging annotations\<close>








lemma record_name_PyDict:
  "record_name (PyDict d) = py_or (dict_get d ''name'') (dict_get d ''startup_name'')"
  by (simp add: record_name_def)










subsection \<open>The stored hash\<close>

lemma lower_Acme: "lower ''Acme'' = ''acme''"
  by code_simp

lemma lower_acme_com: "lower ''https://acme.com'' = ''https://acme.com''"
  by code_simp

text \<open>
  Claim C1, at two records that differ in the founding date only. The hash the pipeline
  stores is \<^verbatim>\<open>hash(name)\<close>, whatever the built-in \<^verbatim>\<open>hash\<close> is: the same for both
  records, although their dates differ. \<^verbatim>\<open>generate_hash\<close>, which the pipeline does not
  call, digests two different strings for them.
\<close>

theorem stored_hash_is_hash_of_name_only:
  "merge_startup h [] []
     [(''name'', PyStr ''Acme''), (''website'', PyStr ''https://acme.com''),
      (''founded_date'', PyStr ''2024-01-01'')] (PyStr ''Acme'')
   = Inr [(''name'', PyStr ''Acme''), (''website'', PyStr ''https://acme.com''),
          (''description'', PyNone), (''category'', PyNone),
          (''founded_date'', PyStr ''2024-01-01''), (''country'', PyNone),
          (''source'', PyNone), (''source_url'', PyNone),
          (''hash'', PyInt (h (PyStr ''Acme'')))]
   \<and> merge_startup h [] []
     [(''name'', PyStr ''Acme''), (''website'', PyStr ''https://acme.com''),
      (''founded_date'', PyStr ''2024-01-02'')] (PyStr ''Acme'')
   = Inr [(''name'', PyStr ''Acme''), (''website'', PyStr ''https://acme.com''),
          (''description'', PyNone), (''category'', PyNone),
          (''founded_date'', PyStr ''2024-01-02''), (''country'', PyNone),
          (''source'', PyNone), (''source_url'', PyNone),
          (''hash'', PyInt (h (PyStr ''Acme'')))]
   \<and> generate_hash md5 ''Acme'' ''https://acme.com'' ''2024-01-01''
       = md5 ''acmehttps://acme.com2024-01-01''
   \<and> generate_hash md5 ''Acme'' ''https://acme.com'' ''2024-01-02''
       = md5 ''acmehttps://acme.com2024-01-02''"
  by (simp add: merge_startup_def generate_hash_def lower_Acme lower_acme_com
      dict_get_def dict_get_default_def dict_has_def py_or_def)

subsection \<open>Extraction\<close>












subsection \<open>The run summary\<close>


lemma to_py_PyStr: "to_py v = PyStr t \<longleftrightarrow> v = SqlText t"
  by (cases v) auto

lemma row_dict_primary_tier: "dict_get (row_dict r) ''primary_tier'' = to_py (st_primary_tier r)"
  by (simp add: row_dict_def dict_get_def dict_get_default_def)

lemma count_tier_rows:
  "count_tier t (get_all_startups True d)
   = length (filter (\<lambda>r. st_primary_tier r = SqlText t) (startups d))"
proof -
  have "length (filter (\<lambda>r. st_primary_tier r = SqlText t) (order_by_created_at_desc (startups d)))
      = length (filter (\<lambda>r. st_primary_tier r = SqlText t) (startups d))"
    by (simp add: order_by_created_at_desc_def filter_sort)
  then show ?thesis
    by (simp add: count_tier_def get_all_startups_def filter_map o_def row_dict_primary_tier
        to_py_PyStr)
qed

lemma length_get_all: "length (get_all_startups True d) = length (startups d)"
  by (simp add: get_all_startups_def order_by_created_at_desc_def)

lemma sort_key_newest_first:
  assumes "\<And>y. y \<in> set xs \<Longrightarrow> f x < f y"
  shows "foldr (insort_key f) xs [x] = x # sort_key f xs"
  using assms
proof (induction xs)
  case Nil
  then show ?case by simp
next
  case (Cons a xs)
  then have "\<not> f a \<le> f x" by (simp add: not_le)
  with Cons show ?case by (simp add: sort_key_def)
qed

lemma sort_key_snoc_newest:
  fixes f :: "'a \<Rightarrow> int"
  assumes "\<And>y. y \<in> set xs \<Longrightarrow> f x < f y"
  shows "sort_key f (xs @ [x]) = x # sort_key f xs"
  using sort_key_newest_first [of xs f x] assms by (simp add: sort_key_def)

lemma tier_partition:
  "length (filter (\<lambda>r. st_primary_tier r = SqlText ''Tier 1'') rs)
   + length (filter (\<lambda>r. st_primary_tier r = SqlText ''Tier 2'') rs)
   + length (filter (\<lambda>r. st_primary_tier r = SqlText ''Tier 3'') rs)
   + length (filter (\<lambda>r. st_primary_tier r \<noteq> SqlText ''Tier 1''
                        \<and> st_primary_tier r \<noteq> SqlText ''Tier 2''
                        \<and> st_primary_tier r \<noteq> SqlText ''Tier 3'') rs)
   = length rs"
  by (induction rs) auto

lemma get_all_startups_failed: "get_all_startups False d = []"
  by (simp add: get_all_startups_def)

text \<open>
  Claim C7 as stated fails. The store holds the three startups of the scenario, with the
  tiers \<^verbatim>\<open>Tier 1\<close>, \<^verbatim>\<open>Tier 1\<close>, \<^verbatim>\<open>Tier 2\<close>. The read of the aggregation fails and the
  write succeeds: \<^verbatim>\<open>get_all_startups\<close> answers the failure by the empty list, and the
  run summary that is written reports zero four times.
\<close>

theorem run_summary_zero_when_read_fails:
  "map (\<lambda>r. (rm_total_startups_found r, rm_tier_1_count r, rm_tier_2_count r,
              rm_tier_3_count r))
     (run_metadata (rs_db (save_run_metadata (example_world\<lparr>storage_ok := (\<lambda>k. k \<noteq> 4)\<rparr>)
         ''run_1'' (3/2) ''reports/run_1'' \<lparr>rs_calls = 4, rs_db = three_startups\<rparr>)))
   = [(0, 0, 0, 0)]
   \<and> map st_primary_tier (startups three_startups)
     = [SqlText ''Tier 1'', SqlText ''Tier 1'', SqlText ''Tier 2'']
   \<and> startups (rs_db (save_run_metadata (example_world\<lparr>storage_ok := (\<lambda>k. k \<noteq> 4)\<rparr>)
         ''run_1'' (3/2) ''reports/run_1'' \<lparr>rs_calls = 4, rs_db = three_startups\<rparr>))
     = startups three_startups"
  by code_simp

text \<open>
  Claim C7, amended. The lines after the insert loop write a run row exactly when the
  write succeeds and the run id is new; otherwise the store is left as it is. The row
  counts what the read of the store returned. When the read succeeds, its total is the
  number of stored startups and its three tier counts are the numbers of stored
  startups whose \<^verbatim>\<open>primary_tier\<close> is exactly \<^verbatim>\<open>Tier 1\<close>, \<^verbatim>\<open>Tier 2\<close>, \<^verbatim>\<open>Tier 3\<close>; the
  startups with another tier or none are in the total and in none of the three counts.
  When the read fails, the total and the three counts are zero, whatever the store
  holds. When the row is newer than the stored run rows, \<^verbatim>\<open>get_latest_run\<close> returns it.
\<close>

theorem run_summary_counts_what_was_read:
  "(storage_ok w (Suc (rs_calls st))
      \<and> run_id \<notin> set (map rm_run_id (run_metadata (rs_db st)))
    \<longrightarrow> (\<exists>r. rs_db (save_run_metadata w run_id processing_time report_path st)
            = (rs_db st)\<lparr>run_metadata := run_metadata (rs_db st) @ [r]\<rparr>
       \<and> rm_run_id r = run_id
       \<and> (storage_ok w (rs_calls st) \<longrightarrow>
            rm_total_startups_found r = length (startups (rs_db st))
          \<and> rm_tier_1_count r
              = length (filter (\<lambda>s. st_primary_tier s = SqlText ''Tier 1'') (startups (rs_db st)))
          \<and> rm_tier_2_count r
              = length (filter (\<lambda>s. st_primary_tier s = SqlText ''Tier 2'') (startups (rs_db st)))
          \<and> rm_tier_3_count r
              = length (filter (\<lambda>s. st_primary_tier s = SqlText ''Tier 3'') (startups (rs_db st)))
          \<and> rm_tier_1_count r + rm_tier_2_count r + rm_tier_3_count r
              + length (filter (\<lambda>s. st_primary_tier s \<noteq> SqlText ''Tier 1''
                                   \<and> st_primary_tier s \<noteq> SqlText ''Tier 2''
                                   \<and> st_primary_tier s \<noteq> SqlText ''Tier 3'')
                          (startups (rs_db st)))
              = rm_total_startups_found r)
       \<and> (\<not> storage_ok w (rs_calls st) \<longrightarrow>
            rm_total_startups_found r = 0 \<and> rm_tier_1_count r = 0
          \<and> rm_tier_2_count r = 0 \<and> rm_tier_3_count r = 0)
       \<and> ((\<forall>r' \<in> set (run_metadata (rs_db st)). rm_run_date r' < clock w (Suc (rs_calls st)))
            \<longrightarrow> get_latest_run True
                  (rs_db (save_run_metadata w run_id processing_time report_path st)) = Some r)))
   \<and> (\<not> storage_ok w (Suc (rs_calls st))
        \<or> run_id \<in> set (map rm_run_id (run_metadata (rs_db st)))
      \<longrightarrow> rs_db (save_run_metadata w run_id processing_time report_path st) = rs_db st)"
proof (intro conjI impI)
  assume "\<not> storage_ok w (Suc (rs_calls st))
        \<or> run_id \<in> set (map rm_run_id (run_metadata (rs_db st)))"
  then show "rs_db (save_run_metadata w run_id processing_time report_path st) = rs_db st"
    by (auto simp: save_run_metadata_def insert_run_metadata_def final_run_data_def Let_def)
next
  assume a: "storage_ok w (Suc (rs_calls st))
      \<and> run_id \<notin> set (map rm_run_id (run_metadata (rs_db st)))"
  let ?db = "rs_db st"
  let ?all = "get_all_startups (storage_ok w (rs_calls st)) ?db"
  let ?now = "clock w (Suc (rs_calls st))"
  let ?r = "\<lparr>rm_id = next_id (map rm_id (run_metadata ?db)),
             rm_run_id = run_id, rm_run_date = ?now,
             rm_total_startups_found = length ?all,
             rm_tier_1_count = count_tier ''Tier 1'' ?all,
             rm_tier_2_count = count_tier ''Tier 2'' ?all,
             rm_tier_3_count = count_tier ''Tier 3'' ?all,
             rm_processing_time_seconds = processing_time,
             rm_status = ''completed'',
             rm_report_path = report_path,
             rm_created_at = ?now\<rparr>"
  have saved: "rs_db (save_run_metadata w run_id processing_time report_path st)
      = ?db\<lparr>run_metadata := run_metadata ?db @ [?r]\<rparr>"
    using a
    by (simp add: save_run_metadata_def insert_run_metadata_def final_run_data_def Let_def)
  have latest: "get_latest_run True (?db\<lparr>run_metadata := run_metadata ?db @ [?r]\<rparr>) = Some ?r"
    if "\<forall>r' \<in> set (run_metadata ?db). rm_run_date r' < ?now"
  proof -
    have "sort_key (\<lambda>r. - int (rm_run_date r)) (run_metadata ?db @ [?r])
        = ?r # sort_key (\<lambda>r. - int (rm_run_date r)) (run_metadata ?db)"
      by (rule sort_key_snoc_newest) (use that in simp)
    then show ?thesis
      by (simp add: get_latest_run_def)
  qed
  show "\<exists>r. rs_db (save_run_metadata w run_id processing_time report_path st)
            = (rs_db st)\<lparr>run_metadata := run_metadata (rs_db st) @ [r]\<rparr>
       \<and> rm_run_id r = run_id
       \<and> (storage_ok w (rs_calls st) \<longrightarrow>
            rm_total_startups_found r = length (startups (rs_db st))
          \<and> rm_tier_1_count r
              = length (filter (\<lambda>s. st_primary_tier s = SqlText ''Tier 1'') (startups (rs_db st)))
          \<and> rm_tier_2_count r
              = length (filter (\<lambda>s. st_primary_tier s = SqlText ''Tier 2'') (startups (rs_db st)))
          \<and> rm_tier_3_count r
              = length (filter (\<lambda>s. st_primary_tier s = SqlText ''Tier 3'') (startups (rs_db st)))
          \<and> rm_tier_1_count r + rm_tier_2_count r + rm_tier_3_count r
              + length (filter (\<lambda>s. st_primary_tier s \<noteq> SqlText ''Tier 1''
                                   \<and> st_primary_tier s \<noteq> SqlText ''Tier 2''
                                   \<and> st_primary_tier s \<noteq> SqlText ''Tier 3'')
                          (startups (rs_db st)))
              = rm_total_startups_found r)
       \<and> (\<not> storage_ok w (rs_calls st) \<longrightarrow>
            rm_total_startups_found r = 0 \<and> rm_tier_1_count r = 0
          \<and> rm_tier_2_count r = 0 \<and> rm_tier_3_count r = 0)
       \<and> ((\<forall>r' \<in> set (run_metadata (rs_db st)). rm_run_date r' < clock w (Suc (rs_calls st)))
            \<longrightarrow> get_latest_run True
                  (rs_db (save_run_metadata w run_id processing_time report_path st)) = Some r)"
  proof (intro exI[of _ ?r] conjI impI)
    show "rs_db (save_run_metadata w run_id processing_time report_path st)
      = ?db\<lparr>run_metadata := run_metadata ?db @ [?r]\<rparr>"
      by (rule saved)
    show "rm_run_id ?r = run_id" by simp
  next
    assume ok: "storage_ok w (rs_calls st)"
    show "rm_total_startups_found ?r = length (startups ?db)"
      using ok by (simp add: length_get_all)
    show "rm_tier_1_count ?r
        = length (filter (\<lambda>s. st_primary_tier s = SqlText ''Tier 1'') (startups ?db))"
      using ok by (simp add: count_tier_rows)
    show "rm_tier_2_count ?r
        = length (filter (\<lambda>s. st_primary_tier s = SqlText ''Tier 2'') (startups ?db))"
      using ok by (simp add: count_tier_rows)
    show "rm_tier_3_count ?r
        = length (filter (\<lambda>s. st_primary_tier s = SqlText ''Tier 3'') (startups ?db))"
      using ok by (simp add: count_tier_rows)
    show "rm_tier_1_count ?r + rm_tier_2_count ?r + rm_tier_3_count ?r
           + length (filter (\<lambda>s. st_primary_tier s \<noteq> SqlText ''Tier 1''
                                \<and> st_primary_tier s \<noteq> SqlText ''Tier 2''
                                \<and> st_primary_tier s \<noteq> SqlText ''Tier 3'') (startups ?db))
           = rm_total_startups_found ?r"
      using ok tier_partition [of "startups ?db"] by (simp add: count_tier_rows length_get_all)
  next
    assume bad: "\<not> storage_ok w (rs_calls st)"
    show "rm_total_startups_found ?r = 0" using bad by (simp add: get_all_startups_failed)
    show "rm_tier_1_count ?r = 0" using bad by (simp add: get_all_startups_failed count_tier_def)
    show "rm_tier_2_count ?r = 0" using bad by (simp add: get_all_startups_failed count_tier_def)
    show "rm_tier_3_count ?r = 0" using bad by (simp add: get_all_startups_failed count_tier_def)
  next
    assume "\<forall>r' \<in> set (run_metadata ?db). rm_run_date r' < ?now"
    then show "get_latest_run True
        (rs_db (save_run_metadata w run_id processing_time report_path st)) = Some ?r"
      using latest saved by simp
  qed
qed

text \<open>
  The scenario of the specification, the store read and written: the summary reports
  3 startups, 2 of \<^verbatim>\<open>Tier 1\<close>, 1 of \<^verbatim>\<open>Tier 2\<close>, none of \<^verbatim>\<open>Tier 3\<close>.
\<close>

theorem run_summary_counts_what_was_read_witness:
  "\<exists>r. rs_db (save_run_metadata example_world ''run_1'' (3/2) ''reports/run_1''
                  \<lparr>rs_calls = 4, rs_db = three_startups\<rparr>)
          = three_startups\<lparr>run_metadata := [r]\<rparr>
     \<and> rm_total_startups_found r = 3 \<and> rm_tier_1_count r = 2
     \<and> rm_tier_2_count r = 1 \<and> rm_tier_3_count r = 0
     \<and> get_latest_run True
           (rs_db (save_run_metadata example_world ''run_1'' (3/2) ''reports/run_1''
                  \<lparr>rs_calls = 4, rs_db = three_startups\<rparr>)) = Some r"
proof -
  let ?st = "\<lparr>rs_calls = 4, rs_db = three_startups\<rparr>"
  let ?db = "rs_db (save_run_metadata example_world ''run_1'' (3/2) ''reports/run_1'' ?st)"
  have h: "storage_ok example_world (Suc (rs_calls ?st))
      \<and> ''run_1'' \<notin> set (map rm_run_id (run_metadata (rs_db ?st)))"
    and ok: "storage_ok example_world (rs_calls ?st)"
    by (simp_all add: example_world_def three_startups_def)
  from run_summary_counts_what_was_read
    [of example_world ?st "''run_1''" "3/2" "''reports/run_1''"] h ok
  obtain r where r: "?db = (rs_db ?st)\<lparr>run_metadata := run_metadata (rs_db ?st) @ [r]\<rparr>"
    "rm_total_startups_found r = length (startups (rs_db ?st))"
    "rm_tier_1_count r
       = length (filter (\<lambda>s. st_primary_tier s = SqlText ''Tier 1'') (startups (rs_db ?st)))"
    "rm_tier_2_count r
       = length (filter (\<lambda>s. st_primary_tier s = SqlText ''Tier 2'') (startups (rs_db ?st)))"
    "rm_tier_3_count r
       = length (filter (\<lambda>s. st_primary_tier s = SqlText ''Tier 3'') (startups (rs_db ?st)))"
    "(\<forall>r' \<in> set (run_metadata (rs_db ?st)).
          rm_run_date r' < clock example_world (Suc (rs_calls ?st)))
       \<longrightarrow> get_latest_run True ?db = Some r"
    by blast
  have "?db = three_startups\<lparr>run_metadata := [r]\<rparr>"
    using r(1) by (simp add: three_startups_def)
  moreover have "rm_total_startups_found r = 3"
    using r(2) by (simp add: three_startups_def)
  moreover have "rm_tier_1_count r = 2"
    using r(3) by (simp add: three_startups_def tiered_row_def)
  moreover have "rm_tier_2_count r = 1"
    using r(4) by (simp add: three_startups_def tiered_row_def)
  moreover have "rm_tier_3_count r = 0"
    using r(5) by (simp add: three_startups_def tiered_row_def)
  moreover have "get_latest_run True ?db = Some r"
    using r(6) by (simp add: three_startups_def)
  ultimately show ?thesis by blast
qed

subsection \<open>Storage failures during a run\<close>














subsection \<open>Secondary tiers in the store\<close>

lemma hex_digit_inj:
  assumes "a < 16" "b < 16" "hex_digit a = hex_digit b"
  shows "a = b"
proof -
  have d: "distinct ''0123456789abcdef''" by simp
  have "length ''0123456789abcdef'' = 16" by simp
  with assms d show ?thesis
    unfolding hex_digit_def by (metis nth_eq_iff_index_eq)
qed

lemma hex_pair_inj:
  fixes n m :: nat
  assumes "n < 256" "m < 256"
    "hex_digit (n div 16) = hex_digit (m div 16)" "hex_digit (n mod 16) = hex_digit (m mod 16)"
  shows "n = m"
proof -
  have "n div 16 = m div 16"
    using assms by (intro hex_digit_inj) auto
  moreover have "n mod 16 = m mod 16"
    using assms by (intro hex_digit_inj) auto
  ultimately show ?thesis
    by (metis div_mult_mod_eq)
qed

lemma of_char_less_256: "(of_char c :: nat) < 256"
  by (cases c) simp

lemma json_escape_char_cases:
  "json_escape_char c = [c] \<and> c \<noteq> CHR 0x5C \<and> c \<noteq> CHR 0x22
   \<or> (\<exists>e. json_escape_char c = [CHR 0x5C, e] \<and> e \<noteq> CHR ''u'')
   \<or> json_escape_char c = [CHR 0x5C, CHR ''u'', CHR ''0'', CHR ''0'',
          hex_digit (of_char c div 16), hex_digit (of_char c mod 16)]"
  unfolding json_escape_char_def Let_def by auto


lemma short_escape_inj:
  assumes "json_escape_char c = [CHR 0x5C, e]" "json_escape_char d = [CHR 0x5C, e]"
  shows "c = d"
proof -
  have same: "c = d" if "of_char c = n" "of_char d = n" for n :: nat
    using that by (metis of_char_eq_iff)
  show ?thesis
    using assms unfolding json_escape_char_def Let_def
    by (auto split: if_splits intro: same)
qed

lemma unicode_escape_inj:
  assumes "hex_digit (of_char c div 16) = hex_digit (of_char d div 16)"
    "hex_digit (of_char c mod 16) = hex_digit (of_char d mod 16)"
  shows "c = d"
proof -
  have "of_char c = (of_char d :: nat)"
    using assms of_char_less_256 [of c] of_char_less_256 [of d]
    by (intro hex_pair_inj) auto
  then show ?thesis by simp
qed

lemma json_escape_char_prefix_free:
  assumes "json_escape_char c @ xs = json_escape_char d @ ys"
  shows "c = d \<and> xs = ys"
proof -
  consider (plain) "json_escape_char c = [c]" "c \<noteq> CHR 0x5C" "c \<noteq> CHR 0x22"
    | (short) e where "json_escape_char c = [CHR 0x5C, e]" "e \<noteq> CHR ''u''"
    | (uni) "json_escape_char c = [CHR 0x5C, CHR ''u'', CHR ''0'', CHR ''0'',
                hex_digit (of_char c div 16), hex_digit (of_char c mod 16)]"
    using json_escape_char_cases [of c] by blast
  then show ?thesis
  proof cases
    case plain
    consider (plain') "json_escape_char d = [d]" "d \<noteq> CHR 0x5C"
      | (short') e where "json_escape_char d = [CHR 0x5C, e]"
      | (uni') "json_escape_char d = [CHR 0x5C, CHR ''u'', CHR ''0'', CHR ''0'',
                hex_digit (of_char d div 16), hex_digit (of_char d mod 16)]"
      using json_escape_char_cases [of d] by blast
    then show ?thesis
      using assms plain by cases simp_all
  next
    case short
    consider (plain') "json_escape_char d = [d]" "d \<noteq> CHR 0x5C"
      | (short') e' where "json_escape_char d = [CHR 0x5C, e']" "e' \<noteq> CHR ''u''"
      | (uni') "json_escape_char d = [CHR 0x5C, CHR ''u'', CHR ''0'', CHR ''0'',
                hex_digit (of_char d div 16), hex_digit (of_char d mod 16)]"
      using json_escape_char_cases [of d] by blast
    then show ?thesis
    proof cases
      case plain'
      with assms short show ?thesis by simp
    next
      case short'
      with assms short have "e' = e" "xs = ys" by simp_all
      with short short' show ?thesis
        using short_escape_inj by blast
    next
      case uni'
      with assms short show ?thesis by simp
    qed
  next
    case uni
    consider (plain') "json_escape_char d = [d]" "d \<noteq> CHR 0x5C"
      | (short') e' where "json_escape_char d = [CHR 0x5C, e']" "e' \<noteq> CHR ''u''"
      | (uni') "json_escape_char d = [CHR 0x5C, CHR ''u'', CHR ''0'', CHR ''0'',
                hex_digit (of_char d div 16), hex_digit (of_char d mod 16)]"
      using json_escape_char_cases [of d] by blast
    then show ?thesis
    proof cases
      case plain'
      with assms uni show ?thesis by simp
    next
      case short'
      with assms uni show ?thesis by simp
    next
      case uni'
      with assms uni have "hex_digit (of_char c div 16) = hex_digit (of_char d div 16)"
        "hex_digit (of_char c mod 16) = hex_digit (of_char d mod 16)" "xs = ys"
        by simp_all
      then show ?thesis
        using unicode_escape_inj by blast
    qed
  qed
qed

lemma json_escape_char_no_quote: "json_escape_char c @ xs \<noteq> CHR 0x22 # ys"
  using json_escape_char_cases [of c] by auto

lemma escaped_inj:
  assumes "concat (map json_escape_char s) @ CHR 0x22 # xs
         = concat (map json_escape_char t) @ CHR 0x22 # ys"
  shows "s = t \<and> xs = ys"
  using assms
proof (induction s arbitrary: t)
  case Nil
  show ?case
  proof (cases t)
    case Nil
    with Nil.prems show ?thesis by simp
  next
    case (Cons d t')
    with Nil.prems show ?thesis
      using json_escape_char_no_quote [of d "concat (map json_escape_char t') @ CHR 0x22 # ys" xs]
      by simp
  qed
next
  case (Cons c s)
  show ?case
  proof (cases t)
    case Nil
    with Cons.prems show ?thesis
      using json_escape_char_no_quote [of c "concat (map json_escape_char s) @ CHR 0x22 # xs" ys]
      by simp
  next
    case (Cons d t')
    with Cons.prems have "json_escape_char c @ (concat (map json_escape_char s) @ CHR 0x22 # xs)
        = json_escape_char d @ (concat (map json_escape_char t') @ CHR 0x22 # ys)"
      by simp
    then have "c = d" "concat (map json_escape_char s) @ CHR 0x22 # xs
        = concat (map json_escape_char t') @ CHR 0x22 # ys"
      using json_escape_char_prefix_free by blast+
    with Cons.IH [of t'] Cons show ?thesis by simp
  qed
qed

lemma json_string_inj:
  assumes "json_string s @ xs = json_string t @ ys"
  shows "s = t \<and> xs = ys"
  using assms escaped_inj [of s xs t ys] by (simp add: json_string_def)

lemma json_string_Cons: "\<exists>r. json_string s = CHR 0x22 # r"
  by (simp add: json_string_def)

lemma join_Cons: "join sep (x # xs) = x @ (if xs = [] then [] else sep @ join sep xs)"
  by (cases xs) simp_all

lemma join_json_strings_inj:
  assumes "join '', '' (map json_string ts) @ CHR '']'' # xs
         = join '', '' (map json_string us) @ CHR '']'' # ys"
  shows "ts = us"
  using assms
proof (induction ts arbitrary: us)
  case Nil
  show ?case
  proof (cases us)
    case Nil
    then show ?thesis by simp
  next
    case (Cons u us')
    obtain r where "json_string u = CHR 0x22 # r"
      using json_string_Cons by blast
    with Nil.prems Cons show ?thesis
      by (simp add: join_Cons)
  qed
next
  case (Cons t ts)
  show ?case
  proof (cases us)
    case Nil
    obtain r where "json_string t = CHR 0x22 # r"
      using json_string_Cons by blast
    with Cons.prems Nil show ?thesis
      by (simp add: join_Cons)
  next
    case us: (Cons u us')
    let ?A = "(if ts = [] then [] else '', '' @ join '', '' (map json_string ts)) @ CHR '']'' # xs"
    let ?B = "(if us' = [] then [] else '', '' @ join '', '' (map json_string us')) @ CHR '']'' # ys"
    from Cons.prems us have "json_string t @ ?A = json_string u @ ?B"
      by (simp add: join_Cons)
    then have tu: "t = u" and AB: "?A = ?B"
      using json_string_inj by blast+
    have "ts = us'"
    proof (cases "ts = []")
      case True
      with AB show ?thesis by (cases "us' = []") simp_all
    next
      case False
      with AB have "us' \<noteq> []" by (cases "us' = []") simp_all
      with AB False have "join '', '' (map json_string ts) @ CHR '']'' # xs
          = join '', '' (map json_string us') @ CHR '']'' # ys"
        by simp
      then show ?thesis by (rule Cons.IH)
    qed
    with tu us show ?thesis by simp
  qed
qed

lemma json_dumps_string_list:
  "json_dumps (PyList (map PyStr ts)) = CHR ''['' # join '', '' (map json_string ts) @ '']''"
  by (simp add: o_def)

lemma json_dumps_string_list_inj:
  assumes "json_dumps (PyList (map PyStr ts)) = json_dumps (PyList (map PyStr us))"
  shows "ts = us"
  using assms join_json_strings_inj [of ts "[]" us "[]"]
  by (simp add: json_dumps_string_list del: json_dumps.simps)


lemma secondary_tiers_never_list:
  "\<not> is_list (dict_get (row_dict r) ''secondary_tiers'')"
  by (cases "st_secondary_tiers r") (simp_all add: row_dict_def dict_get_def dict_get_default_def)

text \<open>
  Claim C8 as stated fails. A record inserted with the secondary tiers \<^verbatim>\<open>Tier 2\<close>,
  \<^verbatim>\<open>Tier 3\<close> is read back by \<^verbatim>\<open>get_all_startups\<close> with the JSON text of the list as its
  \<^verbatim>\<open>secondary_tiers\<close>: a string, not the list.
\<close>

theorem secondary_tiers_read_back_is_text:
  "insert_startup True (\<lambda>v. v) 100 empty_database beta_record
     = (True, snd (insert_startup True (\<lambda>v. v) 100 empty_database beta_record))
   \<and> map (\<lambda>d. dict_get d ''secondary_tiers'')
       (get_all_startups True (snd (insert_startup True (\<lambda>v. v) 100 empty_database beta_record)))
     = [PyStr beta_tiers_text]
   \<and> PyStr beta_tiers_text \<noteq> PyList [PyStr ''Tier 2'', PyStr ''Tier 3'']"
  by code_simp

text \<open>
  Claim C8, amended. A record whose \<^verbatim>\<open>secondary_tiers\<close> is a list of strings, once
  inserted, is read back by \<^verbatim>\<open>get_all_startups\<close> with the text \<^verbatim>\<open>json.dumps\<close> writes for
  the list; no row is ever read back with a list there. The text determines the list,
  order included: two lists of strings with the same text are equal.
\<close>

theorem secondary_tiers_stored_as_json_text:
  assumes "dict_get sd ''secondary_tiers'' = PyList (map PyStr tiers)"
    and "insert_startup ok aff now db sd = (True, db')"
  shows "(\<exists>r. startups db' = startups db @ [r]
            \<and> row_dict r \<in> set (get_all_startups True db')
            \<and> dict_get (row_dict r) ''secondary_tiers''
                = PyStr (json_dumps (PyList (map PyStr tiers))))
       \<and> (\<forall>d \<in> set (get_all_startups True db'). \<not> is_list (dict_get d ''secondary_tiers''))
       \<and> (json_dumps (PyList (map PyStr tiers)) = json_dumps (PyList (map PyStr tiers'))
            \<longrightarrow> tiers = tiers')"
proof (intro conjI impI ballI)
  from assms(2) have "insert_startup_try ok aff now db sd = Inr db'"
    by (simp add: insert_startup_True)
  then have "\<exists>r x10. bind_param (if is_list (dict_get sd ''secondary_tiers'')
               then PyStr (json_dumps (dict_get sd ''secondary_tiers''))
               else dict_get sd ''secondary_tiers'') = Inr x10
      \<and> st_secondary_tiers r = text_affinity x10
      \<and> db' = db\<lparr>startups := startups db @ [r]\<rparr>"
  proof (rule insert_startup_try_Inr)
    fix x1 x2 x3 x4 x5 x6 x7 x8 x9 x10 x11 x12 x13
    assume "bind_param (if is_list (dict_get sd ''secondary_tiers'')
               then PyStr (json_dumps (dict_get sd ''secondary_tiers''))
               else dict_get sd ''secondary_tiers'') = Inr x10"
      and "db' = db\<lparr>startups := startups db @
           [\<lparr>st_id = next_id (map st_id (startups db)),
             st_name = text_affinity x1,
             st_website = text_affinity x2,
             st_description = text_affinity x3,
             st_category = text_affinity x4,
             st_founded_date = text_affinity x5,
             st_country = text_affinity x6,
             st_india_fit_score = aff x7,
             st_india_fit_analysis = text_affinity x8,
             st_primary_tier = text_affinity x9,
             st_secondary_tiers = text_affinity x10,
             st_source = text_affinity x11,
             st_source_url = text_affinity x12,
             st_created_at = now,
             st_updated_at = now,
             st_hash = text_affinity x13\<rparr>]\<rparr>"
    then show ?thesis
      by (intro exI[of _ x10] exI[of _ "\<lparr>st_id = next_id (map st_id (startups db)),
             st_name = text_affinity x1,
             st_website = text_affinity x2,
             st_description = text_affinity x3,
             st_category = text_affinity x4,
             st_founded_date = text_affinity x5,
             st_country = text_affinity x6,
             st_india_fit_score = aff x7,
             st_india_fit_analysis = text_affinity x8,
             st_primary_tier = text_affinity x9,
             st_secondary_tiers = text_affinity x10,
             st_source = text_affinity x11,
             st_source_url = text_affinity x12,
             st_created_at = now,
             st_updated_at = now,
             st_hash = text_affinity x13\<rparr>"]) (simp del: json_dumps.simps)
  qed
  then obtain r x10 where
    x10: "bind_param (if is_list (dict_get sd ''secondary_tiers'')
               then PyStr (json_dumps (dict_get sd ''secondary_tiers''))
               else dict_get sd ''secondary_tiers'') = Inr x10"
    and r: "st_secondary_tiers r = text_affinity x10"
    and db': "db' = db\<lparr>startups := startups db @ [r]\<rparr>"
    by blast
  from x10 assms(1) have "x10 = SqlText (json_dumps (PyList (map PyStr tiers)))"
    by (simp del: json_dumps.simps)
  with r have "dict_get (row_dict r) ''secondary_tiers''
      = PyStr (json_dumps (PyList (map PyStr tiers)))"
    by (simp add: row_dict_def dict_get_def dict_get_default_def del: json_dumps.simps)
  moreover have "row_dict r \<in> set (get_all_startups True db')"
    using db' by (simp add: get_all_startups_def order_by_created_at_desc_def)
  ultimately show "\<exists>r. startups db' = startups db @ [r]
            \<and> row_dict r \<in> set (get_all_startups True db')
            \<and> dict_get (row_dict r) ''secondary_tiers''
                = PyStr (json_dumps (PyList (map PyStr tiers)))"
    using db' by auto
next
  fix d
  assume "d \<in> set (get_all_startups True db')"
  then show "\<not> is_list (dict_get d ''secondary_tiers'')"
    using secondary_tiers_never_list by (auto simp: get_all_startups_def)
next
  assume "json_dumps (PyList (map PyStr tiers)) = json_dumps (PyList (map PyStr tiers'))"
  then show "tiers = tiers'"
    by (rule json_dumps_string_list_inj)
qed

theorem secondary_tiers_stored_as_json_text_witness:
  "\<exists>r. startups (snd (insert_startup True (\<lambda>v. v) 100 empty_database beta_record)) = [r]
      \<and> dict_get (row_dict r) ''secondary_tiers'' = PyStr beta_tiers_text"
proof -
  let ?db' = "snd (insert_startup True (\<lambda>v. v) 100 empty_database beta_record)"
  have a: "dict_get beta_record ''secondary_tiers'' = PyList (map PyStr [''Tier 2'', ''Tier 3''])"
    by (simp add: beta_record_def dict_get_def dict_get_default_def)
  have b: "insert_startup True (\<lambda>v. v) 100 empty_database beta_record = (True, ?db')"
    by code_simp
  have c: "json_dumps (PyList (map PyStr [''Tier 2'', ''Tier 3''])) = beta_tiers_text"
    by code_simp
  from secondary_tiers_stored_as_json_text [OF a b]
  obtain r where "startups ?db' = startups empty_database @ [r]"
    "dict_get (row_dict r) ''secondary_tiers''
       = PyStr (json_dumps (PyList (map PyStr [''Tier 2'', ''Tier 3''])))"
    by blast
  then have "startups ?db' = [r] \<and> dict_get (row_dict r) ''secondary_tiers'' = PyStr beta_tiers_text"
    using c by (simp add: empty_database_def del: json_dumps.simps)
  then show ?thesis by blast
qed

subsection \<open>Duplicate names\<close>






end
